theory Spec2Isabelle
  imports Complex_Main "HOL-Library.AList" "HOL-Library.Log_Nat"
begin

section \<open>JavaScript values held by the application\<close>

text \<open>
  The application state of \<^verbatim>\<open>App.jsx\<close> is two React state variables, \<^verbatim>\<open>modules\<close> and
  \<^verbatim>\<open>selected\<close> (lines 49-50), the browser's \<^verbatim>\<open>localStorage\<close>, and the alerts shown
  to the user. \<^verbatim>\<open>modules\<close> holds whatever \<^verbatim>\<open>setModules\<close> was given: an array of module
  objects after \<^verbatim>\<open>addModule\<close>, any decoded JSON document after \<^verbatim>\<open>loadLayout\<close> or
  \<^verbatim>\<open>importLayout\<close>. So the registry is modelled as a JSON value.

  Simplifications, all on the side of the platform, none on the side of \<^verbatim>\<open>App.jsx\<close>:
  \<^item> a number is a rational (every finite double is one); NaN, the infinities and the
    negative zero are not modelled;
  \<^item> a string is a list of 8-bit characters;
  \<^item> an object is the list of its own properties in insertion order;
  \<^item> objects and arrays have no identity: \<^verbatim>\<open>===\<close> on two of them compares their contents,
    which is what JavaScript answers when both operands are the same reference. The ids
    minted by \<^verbatim>\<open>addModule\<close> are numbers, where \<^verbatim>\<open>===\<close> compares values.
\<close>

datatype json =
    JNull
  | JBool bool
  | JNum rat
  | JStr string
  | JArr "json list"
  | JObj "(string \<times> json) list"

text \<open>A JavaScript value is a JSON value or \<^verbatim>\<open>undefined\<close> (a missing property).\<close>

datatype jsval = Undefined | Val json

datatype js_error = TypeError | SyntaxError

text \<open>The five \<^verbatim>\<open>alert(...)\<close> calls of \<^verbatim>\<open>App.jsx\<close>, by their text (the leading emoji left out):
  "Select a module to delete!" (line 82), "Layout saved!" (98), "Layout loaded!" (106),
  "Layout imported!" (132), "Invalid JSON file!" (134).\<close>

datatype alert_msg =
    SelectModuleToDelete
  | LayoutSaved
  | LayoutLoaded
  | LayoutImported
  | InvalidJSONFile

record app_state =
  modules :: json
  selected :: jsval
  storage :: "string \<Rightarrow> string option"
  alerts :: "alert_msg list"

text \<open>\<^verbatim>\<open>useState([])\<close> and \<^verbatim>\<open>useState(null)\<close>; the storage outlives the page.\<close>

definition init_state :: "(string \<Rightarrow> string option) \<Rightarrow> app_state" where
  "init_state st = \<lparr>modules = JArr [], selected = Val JNull, storage = st, alerts = []\<rparr>"

text \<open>\<^verbatim>\<open>!v\<close> is true on the falsy values: undefined, null, false, 0 and the empty string.\<close>

fun truthy :: "jsval \<Rightarrow> bool" where
  "truthy Undefined = False"
| "truthy (Val JNull) = False"
| "truthy (Val (JBool b)) = b"
| "truthy (Val (JNum n)) = (n \<noteq> 0)"
| "truthy (Val (JStr s)) = (s \<noteq> [])"
| "truthy (Val (JArr xs)) = True"
| "truthy (Val (JObj fs)) = True"

definition strict_eq :: "jsval \<Rightarrow> jsval \<Rightarrow> bool" where
  "strict_eq a b = (a = b)"

text \<open>\<^verbatim>\<open>m.id\<close>: a TypeError on null, the property's value on an object that has it,
  undefined on everything else (numbers, booleans, strings and arrays have no \<^verbatim>\<open>id\<close>).\<close>

fun get_id :: "json \<Rightarrow> js_error + jsval" where
  "get_id JNull = Inl TypeError"
| "get_id (JObj fs) = Inr (case map_of fs ''id'' of None \<Rightarrow> Undefined | Some v \<Rightarrow> Val v)"
| "get_id _ = Inr Undefined"


section \<open>Number arithmetic\<close>

text \<open>
  A JavaScript number is an IEEE 754 double. \<open>fl\<close> rounds a rational to the nearest
  number with a 53-bit significand, ties to the even significand, as every arithmetic
  operation and every decimal literal of the source does. The exponent range is not
  bounded (no overflow to Infinity, no subnormal numbers): the values computed by
  \<^verbatim>\<open>App.jsx\<close> are far inside it.
\<close>

definition round_half_even :: "rat \<Rightarrow> int" where
  "round_half_even q =
     (let f = \<lfloor>q\<rfloor>; d = q - of_int f
      in if d < 1/2 then f else if 1/2 < d then f + 1 else if even f then f else f + 1)"

text \<open>\<open>ilog2 x\<close> is the exponent \<open>e\<close> with \<open>2^e \<le> x < 2^(e+1)\<close>, for \<open>x > 0\<close>.\<close>

definition ilog2 :: "rat \<Rightarrow> int" where
  "ilog2 x =
     (if 1 \<le> x then int (floorlog 2 (nat \<lfloor>x\<rfloor>)) - 1
      else - int (floorlog 2 (nat (\<lceil>1 / x\<rceil> - 1))))"

definition pow2 :: "int \<Rightarrow> rat" where
  "pow2 e = (if 0 \<le> e then 2 ^ nat e else 1 / 2 ^ nat (- e))"

definition fl :: "rat \<Rightarrow> rat" where
  "fl x =
     (if x = 0 then 0
      else let u = pow2 (ilog2 \<bar>x\<bar> - 52)
           in sgn x * of_int (round_half_even (\<bar>x\<bar> / u)) * u)"

definition js_mul :: "rat \<Rightarrow> rat \<Rightarrow> rat" where
  "js_mul a b = fl (a * b)"

definition js_sub :: "rat \<Rightarrow> rat \<Rightarrow> rat" where
  "js_sub a b = fl (a - b)"

definition Math_floor :: "rat \<Rightarrow> int" where
  "Math_floor x = \<lfloor>x\<rfloor>"

text \<open>\<^verbatim>\<open>Math.random()\<close> returns a double that is at least 0 and less than 1; the largest
  such double is \<open>1 - 2^-53\<close>.\<close>

definition is_random :: "rat \<Rightarrow> bool" where
  "is_random r = (0 \<le> r \<and> r \<le> 1 - 1 / 2 ^ 53)"

section \<open>Array and object primitives\<close>

text \<open>\<^verbatim>\<open>[...v]\<close> iterates \<open>v\<close>: the elements of an array, the characters of a string, a
  TypeError on anything else (null, numbers, booleans and plain objects are not iterable).\<close>

fun iterate :: "json \<Rightarrow> js_error + json list" where
  "iterate (JArr xs) = Inr xs"
| "iterate (JStr cs) = Inr (map (\<lambda>c. JStr [c]) cs)"
| "iterate _ = Inl TypeError"

text \<open>\<^verbatim>\<open>v.filter(p)\<close> and \<^verbatim>\<open>v.map(f)\<close> exist on arrays only (calling a missing method is
  a TypeError); the callback runs on the elements in order and its first exception ends
  the call.\<close>

fun filter_elems :: "(json \<Rightarrow> js_error + bool) \<Rightarrow> json list \<Rightarrow> js_error + json list" where
  "filter_elems p [] = Inr []"
| "filter_elems p (x # xs) =
     (case p x of
        Inl e \<Rightarrow> Inl e
      | Inr b \<Rightarrow>
          (case filter_elems p xs of
             Inl e \<Rightarrow> Inl e
           | Inr ys \<Rightarrow> Inr (if b then x # ys else ys)))"

fun map_elems :: "(json \<Rightarrow> js_error + json) \<Rightarrow> json list \<Rightarrow> js_error + json list" where
  "map_elems f [] = Inr []"
| "map_elems f (x # xs) =
     (case f x of
        Inl e \<Rightarrow> Inl e
      | Inr y \<Rightarrow>
          (case map_elems f xs of
             Inl e \<Rightarrow> Inl e
           | Inr ys \<Rightarrow> Inr (y # ys)))"

fun array_filter :: "(json \<Rightarrow> js_error + bool) \<Rightarrow> json \<Rightarrow> js_error + json list" where
  "array_filter p (JArr xs) = filter_elems p xs"
| "array_filter p _ = Inl TypeError"

fun array_map :: "(json \<Rightarrow> js_error + json) \<Rightarrow> json \<Rightarrow> js_error + json list" where
  "array_map f (JArr xs) = map_elems f xs"
| "array_map f _ = Inl TypeError"

text \<open>Decimal digits of a natural number, for the index keys of arrays and strings and
  for the serializer below.\<close>

definition digit_char :: "nat \<Rightarrow> char" where
  "digit_char d = char_of (48 + d)"

fun digits_of :: "nat \<Rightarrow> string" where
  "digits_of n = (if n < 10 then [digit_char n] else digits_of (n div 10) @ [digit_char (n mod 10)])"

declare digits_of.simps [simp del]

text \<open>\<^verbatim>\<open>{...m}\<close> copies the own enumerable properties of \<open>m\<close>: those of an object, the
  indexed elements of an array or string, none of a number, boolean or null.\<close>

fun own_props :: "json \<Rightarrow> (string \<times> json) list" where
  "own_props (JObj fs) = fs"
| "own_props (JArr xs) = zip (map digits_of [0..<length xs]) xs"
| "own_props (JStr cs) = zip (map digits_of [0..<length cs]) (map (\<lambda>c. JStr [c]) cs)"
| "own_props _ = []"

text \<open>\<^verbatim>\<open>{...m, [field]: value}\<close>: the copy of \<open>m\<close>, with \<open>field\<close> overwritten where it is
  (keeping its place) and added at the end where it is not.\<close>

definition spread_with :: "json \<Rightarrow> string \<Rightarrow> json \<Rightarrow> json" where
  "spread_with m field v = JObj (AList.update field v (own_props m))"

section \<open>The handlers of App.jsx\<close>

subsection \<open>addModule (lines 56-78)\<close>

definition types :: "string list" where
  "types = [''cube'', ''sphere'', ''cylinder'', ''cone'', ''solar'', ''tunnel'']"

definition colors :: "(string \<times> string) list" where
  "colors =
    [(''cube'', ''#00aaff''),
     (''sphere'', ''#ffcc00''),
     (''cylinder'', ''#00ffaa''),
     (''cone'', ''#ff4444''),
     (''solar'', ''#2233ff''),
     (''tunnel'', ''#aaaaaa'')]"

text \<open>\<^verbatim>\<open>xs[i]\<close> on an array: undefined (here \<open>None\<close>) out of range.\<close>

definition index_at :: "'a list \<Rightarrow> int \<Rightarrow> 'a option" where
  "index_at xs i = (if 0 \<le> i \<and> i < int (length xs) then Some (xs ! nat i) else None)"

definition upper_char :: "char \<Rightarrow> char" where
  "upper_char c =
     (let n = (of_char c :: nat) in if 97 \<le> n \<and> n \<le> 122 then char_of (n - 32) else c)"

definition toUpperCase :: "string \<Rightarrow> string" where
  "toUpperCase s = map upper_char s"

definition charAt :: "string \<Rightarrow> nat \<Rightarrow> string" where
  "charAt s i = take 1 (drop i s)"

definition slice :: "string \<Rightarrow> nat \<Rightarrow> string" where
  "slice s i = drop i s"


text \<open>
  \<open>addModule now r1 r2 r3\<close>: \<open>now\<close> is what \<^verbatim>\<open>Date.now()\<close> returns (milliseconds, an
  integer), \<open>r1\<close>, \<open>r2\<close>, \<open>r3\<close> what the three calls of \<^verbatim>\<open>Math.random()\<close> return.
  \<^verbatim>\<open>types[i]\<close> out of range is undefined and \<^verbatim>\<open>type.charAt\<close> on it a TypeError.
  \<^verbatim>\<open>colors[type]\<close> is defined for every member of \<open>types\<close> (lemma \<open>colors_defined\<close>); the
  \<open>None\<close> case below cannot be reached and stands for the undefined property.
\<close>

definition new_module :: "int \<Rightarrow> string \<Rightarrow> rat \<Rightarrow> rat \<Rightarrow> json" where
  "new_module now type r2 r3 =
     JObj [(''id'', JNum (of_int now)),
           (''label'', JStr (toUpperCase (charAt type 0) @ slice type 1)),
           (''color'', (case map_of colors type of Some c \<Rightarrow> JStr c | None \<Rightarrow> JNull)),
           (''size'', JNum 2),
           (''type'', JStr type),
           (''position'', JArr [JNum (js_sub (js_mul r2 6) 3), JNum 0, JNum (js_sub (js_mul r3 6) 3)])]"

definition addModule :: "int \<Rightarrow> rat \<Rightarrow> rat \<Rightarrow> rat \<Rightarrow> app_state \<Rightarrow> js_error + app_state" where
  "addModule now r1 r2 r3 s =
     (case index_at types (Math_floor (js_mul r1 (of_nat (length types)))) of
        None \<Rightarrow> Inl TypeError
      | Some type \<Rightarrow>
          (case iterate (modules s) of
             Inl e \<Rightarrow> Inl e
           | Inr ms \<Rightarrow>
               Inr (s\<lparr>modules := JArr (ms @ [new_module now type r2 r3]),
                      selected := Val (JNum (of_int now))\<rparr>)))"

subsection \<open>deleteModule (lines 81-85)\<close>

definition deleteModule :: "app_state \<Rightarrow> js_error + app_state" where
  "deleteModule s =
     (if \<not> truthy (selected s) then Inr (s\<lparr>alerts := alerts s @ [SelectModuleToDelete]\<rparr>)
      else
        (case array_filter
                (\<lambda>m. case get_id m of Inl e \<Rightarrow> Inl e | Inr i \<Rightarrow> Inr (\<not> strict_eq i (selected s)))
                (modules s) of
           Inl e \<Rightarrow> Inl e
         | Inr ms \<Rightarrow> Inr (s\<lparr>modules := JArr ms, selected := Val JNull\<rparr>)))"

subsection \<open>updateSelected (lines 88-93)\<close>

definition updateSelected :: "string \<Rightarrow> json \<Rightarrow> app_state \<Rightarrow> js_error + app_state" where
  "updateSelected field v s =
     (if \<not> truthy (selected s) then Inr s
      else
        (case array_map
                (\<lambda>m. case get_id m of
                        Inl e \<Rightarrow> Inl e
                      | Inr i \<Rightarrow> Inr (if strict_eq i (selected s) then spread_with m field v else m))
                (modules s) of
           Inl e \<Rightarrow> Inl e
         | Inr ms \<Rightarrow> Inr (s\<lparr>modules := JArr ms\<rparr>)))"

subsection \<open>Click on a rendered module (line 190)\<close>

text \<open>The \<open>k\<close>-th rendered module carries \<^verbatim>\<open>onClick={() => setSelected(m.id)}\<close> when it
  is not the selected one (\<^verbatim>\<open>selected === m.id\<close> is false, line 160); the selected one is
  wrapped in the transform controls and has no click handler.\<close>

definition clickModule :: "nat \<Rightarrow> app_state \<Rightarrow> js_error + app_state" where
  "clickModule k s =
     (case modules s of
        JArr ms \<Rightarrow>
          (if k < length ms then
             (case get_id (ms ! k) of
                Inl e \<Rightarrow> Inl e
              | Inr i \<Rightarrow> Inr (if strict_eq (selected s) i then s else s\<lparr>selected := i\<rparr>))
           else Inr s)
      | _ \<Rightarrow> Inl TypeError)"


section \<open>JSON.stringify and JSON.parse\<close>

text \<open>
  The two functions of the platform that the persistence handlers call, modelled after
  ECMA-262 and the JSON grammar (ECMA-404) on the values above: a serializer that writes
  the tokens of a value without white space, as \<^verbatim>\<open>JSON.stringify(v)\<close> does, and a lexer
  and a parser that accept exactly the JSON grammar, with \<open>None\<close> for the SyntaxError of
  \<^verbatim>\<open>JSON.parse\<close>. Where the model is not the platform:
  \<^item> a number is written with all its decimal digits (a double has finitely many), in
    plain notation; the platform writes the shortest digits that read back as the same
    double, and large or small numbers with an exponent. Both texts read back as the
    number written;
  \<^item> a number that is read is rounded to a double by \<open>fl\<close>, without overflow to Infinity;
    \<^verbatim>\<open>-0\<close> reads as 0;
  \<^item> an escape \<^verbatim>\<open>\uXXXX\<close> above \<^verbatim>\<open>\u00FF\<close> does not fit the 8-bit characters and is refused;
  \<^item> the keys of an object keep the order of the text (the platform moves keys that are
    array indices to the front); a key given twice keeps its first place and its last
    value, as on the platform.
\<close>

datatype token =
    TLBracket | TRBracket | TLBrace | TRBrace | TComma | TColon
  | TString string | TNumber rat | TTrue | TFalse | TNull

subsection \<open>Serializer\<close>

definition hex_char :: "nat \<Rightarrow> char" where
  "hex_char d = (if d < 10 then char_of (48 + d) else char_of (87 + d))"

definition escape_char :: "char \<Rightarrow> string" where
  "escape_char c =
     (if c = CHR 0x22 then [CHR 0x5C, CHR 0x22]
      else if c = CHR 0x5C then [CHR 0x5C, CHR 0x5C]
      else if c = CHR 0x08 then [CHR 0x5C, CHR ''b'']
      else if c = CHR 0x09 then [CHR 0x5C, CHR ''t'']
      else if c = CHR 0x0A then [CHR 0x5C, CHR ''n'']
      else if c = CHR 0x0C then [CHR 0x5C, CHR ''f'']
      else if c = CHR 0x0D then [CHR 0x5C, CHR ''r'']
      else if (of_char c :: nat) < 32
        then [CHR 0x5C, CHR ''u'', CHR ''0'', CHR ''0'',
              hex_char (of_char c div 16), hex_char (of_char c mod 16)]
      else [c])"

text \<open>A string is quoted with the escapes of \<^verbatim>\<open>QuoteJSONString\<close>: the quote, the backslash,
  the five short escapes and \<^verbatim>\<open>\u00XX\<close> for the other control characters.\<close>

definition quote :: "string \<Rightarrow> string" where
  "quote s = CHR 0x22 # concat (map escape_char s) @ [CHR 0x22]"

text \<open>The digits after the point of \<open>f\<close> in \<open>[0, 1)\<close>, at most \<open>n\<close> of them. A double of
  exponent \<open>e\<close> is a multiple of \<open>2^(e - 52)\<close> and has at most \<open>52 - e\<close> of them, so
  \<open>show_num\<close> asks for \<open>53 - e\<close>.\<close>

fun frac_digits :: "nat \<Rightarrow> rat \<Rightarrow> string" where
  "frac_digits 0 f = []"
| "frac_digits (Suc n) f =
     (if f = 0 then []
      else digit_char (nat \<lfloor>f * 10\<rfloor>) # frac_digits n (f * 10 - of_int \<lfloor>f * 10\<rfloor>))"

definition show_num :: "rat \<Rightarrow> string" where
  "show_num x =
     (let a = \<bar>x\<bar>; f = a - of_int \<lfloor>a\<rfloor>
      in (if x < 0 then ''-'' else [])
         @ digits_of (nat \<lfloor>a\<rfloor>)
         @ (if f = 0 then [] else CHR ''.'' # frac_digits (nat (53 - ilog2 a)) f))"

fun token_text :: "token \<Rightarrow> string" where
  "token_text TLBracket = ''[''"
| "token_text TRBracket = '']''"
| "token_text TLBrace = ''{''"
| "token_text TRBrace = ''}''"
| "token_text TComma = '',''"
| "token_text TColon = '':''"
| "token_text (TString s) = quote s"
| "token_text (TNumber x) = show_num x"
| "token_text TTrue = ''true''"
| "token_text TFalse = ''false''"
| "token_text TNull = ''null''"

text \<open>The tokens of a value: the elements of an array and the members of an object are
  separated by commas, a key and its value by a colon.\<close>

fun tokens :: "json \<Rightarrow> token list"
  and elem_tokens :: "json list \<Rightarrow> token list"
  and member_tokens :: "(string \<times> json) list \<Rightarrow> token list" where
  "tokens JNull = [TNull]"
| "tokens (JBool b) = [if b then TTrue else TFalse]"
| "tokens (JNum x) = [TNumber x]"
| "tokens (JStr s) = [TString s]"
| "tokens (JArr xs) = TLBracket # elem_tokens xs @ [TRBracket]"
| "tokens (JObj fs) = TLBrace # member_tokens fs @ [TRBrace]"
| "elem_tokens [] = []"
| "elem_tokens [x] = tokens x"
| "elem_tokens (x # y # ys) = tokens x @ TComma # elem_tokens (y # ys)"
| "member_tokens [] = []"
| "member_tokens [(k, v)] = TString k # TColon # tokens v"
| "member_tokens ((k, v) # m # ms) = TString k # TColon # tokens v @ TComma # member_tokens (m # ms)"

definition JSON_stringify :: "json \<Rightarrow> string" where
  "JSON_stringify v = concat (map token_text (tokens v))"

subsection \<open>Lexer\<close>

text \<open>White space is the space, the tab, the line feed and the carriage return.\<close>

definition is_ws :: "char \<Rightarrow> bool" where
  "is_ws c = (c = CHR 0x20 \<or> c = CHR 0x09 \<or> c = CHR 0x0A \<or> c = CHR 0x0D)"

definition is_digit :: "char \<Rightarrow> bool" where
  "is_digit c = (48 \<le> (of_char c :: nat) \<and> (of_char c :: nat) \<le> 57)"

definition digit_val :: "char \<Rightarrow> nat" where
  "digit_val c = of_char c - 48"

definition nat_of_digits :: "string \<Rightarrow> nat" where
  "nat_of_digits ds = foldl (\<lambda>n c. 10 * n + digit_val c) 0 ds"

definition hex_val :: "char \<Rightarrow> nat option" where
  "hex_val c =
     (let n = (of_char c :: nat)
      in if 48 \<le> n \<and> n \<le> 57 then Some (n - 48)
         else if 97 \<le> n \<and> n \<le> 102 then Some (n - 87)
         else if 65 \<le> n \<and> n \<le> 70 then Some (n - 55)
         else None)"

definition unescape :: "char \<Rightarrow> char option" where
  "unescape e =
     (if e = CHR 0x22 then Some (CHR 0x22)
      else if e = CHR 0x5C then Some (CHR 0x5C)
      else if e = CHR ''/'' then Some (CHR ''/'')
      else if e = CHR ''b'' then Some (CHR 0x08)
      else if e = CHR ''f'' then Some (CHR 0x0C)
      else if e = CHR ''n'' then Some (CHR 0x0A)
      else if e = CHR ''r'' then Some (CHR 0x0D)
      else if e = CHR ''t'' then Some (CHR 0x09)
      else None)"

definition hex4 :: "char \<Rightarrow> char \<Rightarrow> char \<Rightarrow> char \<Rightarrow> nat option" where
  "hex4 a b c d =
     (case (hex_val a, hex_val b, hex_val c, hex_val d) of
        (Some x, Some y, Some z, Some w) \<Rightarrow> Some (((x * 16 + y) * 16 + z) * 16 + w)
      | _ \<Rightarrow> None)"

text \<open>The characters of a string up to its closing quote, with the escapes decoded; a raw
  control character or an unknown escape is an error.\<close>

definition cons_char :: "char \<Rightarrow> (string \<times> string) option \<Rightarrow> (string \<times> string) option" where
  "cons_char c r = (case r of None \<Rightarrow> None | Some (s, rest) \<Rightarrow> Some (c # s, rest))"

fun lex_string :: "string \<Rightarrow> (string \<times> string) option" where
  "lex_string [] = None"
| "lex_string (c # cs) =
     (if c = CHR 0x22 then Some ([], cs)
      else if c = CHR 0x5C then
        (case cs of
           [] \<Rightarrow> None
         | e # cs1 \<Rightarrow>
             (if e = CHR ''u'' then
                (case cs1 of
                   a # b # c2 # d # cs2 \<Rightarrow>
                     (case hex4 a b c2 d of
                        None \<Rightarrow> None
                      | Some n \<Rightarrow> if n < 256 then cons_char (char_of n) (lex_string cs2) else None)
                 | _ \<Rightarrow> None)
              else
                (case unescape e of
                   None \<Rightarrow> None
                 | Some ch \<Rightarrow> cons_char ch (lex_string cs1))))
      else if (of_char c :: nat) < 32 then None
      else cons_char c (lex_string cs))"

text \<open>A number is an optional minus, an integer part without leading zeros, an optional
  fraction with at least one digit and an optional exponent with at least one digit.\<close>

definition lex_exponent :: "string \<Rightarrow> (int \<times> string) option" where
  "lex_exponent cs =
     (case cs of
        [] \<Rightarrow> Some (0, cs)
      | e # cs1 \<Rightarrow>
          (if e = CHR ''e'' \<or> e = CHR ''E'' then
             (let neg = (case cs1 of [] \<Rightarrow> False | g # _ \<Rightarrow> g = CHR ''-'');
                  cs2 = (case cs1 of [] \<Rightarrow> [] | g # r \<Rightarrow> if g = CHR ''-'' \<or> g = CHR ''+'' then r else cs1);
                  ds = takeWhile is_digit cs2
              in if ds = [] then None
                 else Some ((if neg then - int (nat_of_digits ds) else int (nat_of_digits ds)),
                            dropWhile is_digit cs2))
           else Some (0, cs)))"

definition lex_fraction :: "string \<Rightarrow> (string \<times> string) option" where
  "lex_fraction cs =
     (case cs of
        [] \<Rightarrow> Some ([], cs)
      | p # cs1 \<Rightarrow>
          (if p = CHR ''.'' then
             (let fs = takeWhile is_digit cs1
              in if fs = [] then None else Some (fs, dropWhile is_digit cs1))
           else Some ([], cs)))"

definition pow10 :: "int \<Rightarrow> rat" where
  "pow10 e = (if 0 \<le> e then 10 ^ nat e else 1 / 10 ^ nat (- e))"

definition lex_number :: "string \<Rightarrow> (rat \<times> string) option" where
  "lex_number cs =
     (let neg = (case cs of [] \<Rightarrow> False | g # _ \<Rightarrow> g = CHR ''-'');
          cs1 = (if neg then tl cs else cs);
          ds = takeWhile is_digit cs1
      in if ds = [] \<or> (1 < length ds \<and> hd ds = CHR ''0'') then None
         else
           (case lex_fraction (dropWhile is_digit cs1) of
              None \<Rightarrow> None
            | Some (fs, cs2) \<Rightarrow>
                (case lex_exponent cs2 of
                   None \<Rightarrow> None
                 | Some (ex, cs3) \<Rightarrow>
                     let m = of_nat (nat_of_digits ds) + of_nat (nat_of_digits fs) / 10 ^ length fs
                     in Some (fl ((if neg then - m else m) * pow10 ex), cs3))))"

definition lex_literal :: "string \<Rightarrow> token \<Rightarrow> string \<Rightarrow> (token \<times> string) option" where
  "lex_literal w t cs = (if take (length w) cs = w then Some (t, drop (length w) cs) else None)"

text \<open>One token from a text that does not start with white space.\<close>

definition lex_token :: "string \<Rightarrow> (token \<times> string) option" where
  "lex_token cs =
     (case cs of
        [] \<Rightarrow> None
      | c # cs1 \<Rightarrow>
          (if c = CHR ''['' then Some (TLBracket, cs1)
           else if c = CHR '']'' then Some (TRBracket, cs1)
           else if c = CHR ''{'' then Some (TLBrace, cs1)
           else if c = CHR ''}'' then Some (TRBrace, cs1)
           else if c = CHR '','' then Some (TComma, cs1)
           else if c = CHR '':'' then Some (TColon, cs1)
           else if c = CHR 0x22 then
             (case lex_string cs1 of None \<Rightarrow> None | Some (s, rest) \<Rightarrow> Some (TString s, rest))
           else if c = CHR ''t'' then lex_literal ''true'' TTrue cs
           else if c = CHR ''f'' then lex_literal ''false'' TFalse cs
           else if c = CHR ''n'' then lex_literal ''null'' TNull cs
           else if c = CHR ''-'' \<or> is_digit c then
             (case lex_number cs of None \<Rightarrow> None | Some (x, rest) \<Rightarrow> Some (TNumber x, rest))
           else None))"

text \<open>Every token consumes at least one character, which is why the lexer terminates.\<close>

lemma cons_char_length:
  "cons_char c r = Some (s, rest) \<Longrightarrow> \<exists>s'. r = Some (s', rest)"
  by (auto simp: cons_char_def split: option.splits)

lemma lex_string_length: "lex_string cs = Some (s, rest) \<Longrightarrow> length rest < length cs"
proof (induction cs arbitrary: s rest rule: lex_string.induct)
  case 1
  then show ?case by simp
next
  case (2 c cs)
  show ?case
    using "2.prems" "2.IH"
    by (fastforce simp: split: if_splits list.splits option.splits dest!: cons_char_length)
qed

lemma lex_fraction_length: "lex_fraction cs = Some (fs, rest) \<Longrightarrow> length rest \<le> length cs"
  by (auto simp: lex_fraction_def Let_def length_dropWhile_le le_SucI split: list.splits if_splits)

lemma lex_exponent_length: "lex_exponent cs = Some (ex, rest) \<Longrightarrow> length rest \<le> length cs"
  by (auto simp: lex_exponent_def Let_def length_dropWhile_le le_SucI
      split: list.splits if_splits intro: le_trans[OF length_dropWhile_le])

lemma dropWhile_shorter: "takeWhile P xs \<noteq> [] \<Longrightarrow> length (dropWhile P xs) < length xs"
  by (induction xs) (auto simp: less_Suc_eq_le length_dropWhile_le split: if_splits)

lemma lex_number_length:
  assumes "lex_number cs = Some (x, rest)"
  shows "length rest < length cs"
proof -
  define cs1 where "cs1 = (if (case cs of [] \<Rightarrow> False | g # _ \<Rightarrow> g = CHR ''-'') then tl cs else cs)"
  have ds: "takeWhile is_digit cs1 \<noteq> []"
    using assms by (auto simp: lex_number_def Let_def cs1_def split: if_splits)
  obtain fs cs2 ex where fr: "lex_fraction (dropWhile is_digit cs1) = Some (fs, cs2)"
    and ex: "lex_exponent cs2 = Some (ex, rest)"
    using assms by (auto simp: lex_number_def Let_def cs1_def split: if_splits option.splits)
  have "length rest \<le> length cs2" using ex by (rule lex_exponent_length)
  also have "\<dots> \<le> length (dropWhile is_digit cs1)" using fr by (rule lex_fraction_length)
  also have "\<dots> < length cs1" using ds by (rule dropWhile_shorter)
  also have "\<dots> \<le> length cs" by (simp add: cs1_def)
  finally show ?thesis .
qed

lemma lex_literal_length: "w \<noteq> [] \<Longrightarrow> lex_literal w t cs = Some (t', rest) \<Longrightarrow> length rest < length cs"
  by (cases cs) (auto simp: lex_literal_def split: if_splits)

lemma lex_token_length:
  assumes "lex_token cs = Some (t, rest)"
  shows "length rest < length cs"
proof (cases cs)
  case Nil
  with assms show ?thesis by (simp add: lex_token_def)
next
  case (Cons c cs1)
  consider (punct) "rest = cs1"
    | (str) s where "lex_string cs1 = Some (s, rest)"
    | (lit) w t' where "w \<noteq> []" "lex_literal w t' cs = Some (t, rest)"
    | (num) x where "lex_number cs = Some (x, rest)"
    using assms Cons
    by (simp add: lex_token_def split: if_splits option.splits prod.splits) blast+
  then show ?thesis
  proof cases
    case punct
    with Cons show ?thesis by simp
  next
    case str
    then have "length rest < length cs1" by (rule lex_string_length)
    with Cons show ?thesis by simp
  next
    case lit
    then show ?thesis by (rule lex_literal_length)
  next
    case num
    then show ?thesis by (rule lex_number_length)
  qed
qed

function lex :: "string \<Rightarrow> token list option" where
  "lex cs =
     (let cs1 = dropWhile is_ws cs
      in if cs1 = [] then Some []
         else
           (case lex_token cs1 of
              None \<Rightarrow> None
            | Some (t, rest) \<Rightarrow> (case lex rest of None \<Rightarrow> None | Some ts \<Rightarrow> Some (t # ts))))"
  by pat_completeness auto
termination
proof (relation "measure length")
  show "wf (measure length)" by simp
next
  fix cs cs1 p t rest
  assume "cs1 = dropWhile is_ws cs" "lex_token cs1 = Some p" "(t, rest) = p"
  then have "length rest < length cs1" using lex_token_length by metis
  also have "length cs1 \<le> length cs" using \<open>cs1 = dropWhile is_ws cs\<close> by (simp add: length_dropWhile_le)
  finally show "(rest, cs) \<in> measure length" by simp
qed

declare lex.simps [simp del]

subsection \<open>Parser\<close>

text \<open>
  The parser is a pushdown automaton over the tokens. The stack holds the arrays and
  objects that are open, innermost first, each with what it has collected; the mode says
  what may come next. A value that is complete is delivered to the innermost open
  container, or is the result when none is open.
\<close>

datatype frame =
    ArrFrame "json list"
  | ObjFrame "(string \<times> json) list"
  | MemberFrame "(string \<times> json) list" string

datatype pmode =
    WantValue | WantValueOrClose | WantKey | WantKeyOrClose | WantColon string
  | WantCommaOrClose | Finished json

fun deliver :: "json \<Rightarrow> frame list \<Rightarrow> (pmode \<times> frame list) option" where
  "deliver v [] = Some (Finished v, [])"
| "deliver v (ArrFrame xs # st) = Some (WantCommaOrClose, ArrFrame (xs @ [v]) # st)"
| "deliver v (MemberFrame fs k # st) = Some (WantCommaOrClose, ObjFrame (AList.update k v fs) # st)"
| "deliver v (ObjFrame fs # st) = None"

fun start_value :: "token \<Rightarrow> frame list \<Rightarrow> (pmode \<times> frame list) option" where
  "start_value TNull st = deliver JNull st"
| "start_value TTrue st = deliver (JBool True) st"
| "start_value TFalse st = deliver (JBool False) st"
| "start_value (TNumber x) st = deliver (JNum x) st"
| "start_value (TString s) st = deliver (JStr s) st"
| "start_value TLBracket st = Some (WantValueOrClose, ArrFrame [] # st)"
| "start_value TLBrace st = Some (WantKeyOrClose, ObjFrame [] # st)"
| "start_value _ st = None"

fun close_array :: "frame list \<Rightarrow> (pmode \<times> frame list) option" where
  "close_array (ArrFrame xs # st) = deliver (JArr xs) st"
| "close_array _ = None"

fun close_object :: "frame list \<Rightarrow> (pmode \<times> frame list) option" where
  "close_object (ObjFrame fs # st) = deliver (JObj fs) st"
| "close_object _ = None"

fun pstep :: "pmode \<times> frame list \<Rightarrow> token \<Rightarrow> (pmode \<times> frame list) option" where
  "pstep (WantValue, st) t = start_value t st"
| "pstep (WantValueOrClose, st) t = (if t = TRBracket then close_array st else start_value t st)"
| "pstep (WantKey, st) t = (case t of TString k \<Rightarrow> Some (WantColon k, st) | _ \<Rightarrow> None)"
| "pstep (WantKeyOrClose, st) t =
     (case t of TString k \<Rightarrow> Some (WantColon k, st) | TRBrace \<Rightarrow> close_object st | _ \<Rightarrow> None)"
| "pstep (WantColon k, st) t =
     (case (t, st) of (TColon, ObjFrame fs # st1) \<Rightarrow> Some (WantValue, MemberFrame fs k # st1) | _ \<Rightarrow> None)"
| "pstep (WantCommaOrClose, st) t =
     (case t of
        TComma \<Rightarrow>
          (case st of
             ArrFrame xs # _ \<Rightarrow> Some (WantValue, st)
           | ObjFrame fs # _ \<Rightarrow> Some (WantKey, st)
           | _ \<Rightarrow> None)
      | TRBracket \<Rightarrow> close_array st
      | TRBrace \<Rightarrow> close_object st
      | _ \<Rightarrow> None)"
| "pstep (Finished v, st) t = None"

fun prun :: "pmode \<times> frame list \<Rightarrow> token list \<Rightarrow> json option" where
  "prun (m, st) [] = (case m of Finished v \<Rightarrow> Some v | _ \<Rightarrow> None)"
| "prun c (t # ts) = (case pstep c t of None \<Rightarrow> None | Some c' \<Rightarrow> prun c' ts)"

definition JSON_parse :: "string \<Rightarrow> json option" where
  "JSON_parse text = (case lex text of None \<Rightarrow> None | Some ts \<Rightarrow> prun (WantValue, []) ts)"



section \<open>The persistence handlers\<close>

subsection \<open>saveLayout (lines 96-99)\<close>

text \<open>\<^verbatim>\<open>localStorage.setItem\<close> overwrites the slot; a full storage (a quota exception) is
  not modelled.\<close>

definition saveLayout :: "app_state \<Rightarrow> app_state" where
  "saveLayout s =
     s\<lparr>storage := (storage s)(''astrohab_layout'' \<mapsto> JSON_stringify (modules s)),
       alerts := alerts s @ [LayoutSaved]\<rparr>"

subsection \<open>loadLayout (lines 102-108)\<close>

text \<open>\<^verbatim>\<open>getItem\<close> returns null for a missing slot; \<^verbatim>\<open>if (data)\<close> is false on null and on the
  empty string. \<^verbatim>\<open>JSON.parse\<close> is not guarded here: a slot that does not decode is an
  uncaught SyntaxError.\<close>

definition loadLayout :: "app_state \<Rightarrow> js_error + app_state" where
  "loadLayout s =
     (case storage s ''astrohab_layout'' of
        None \<Rightarrow> Inr s
      | Some data \<Rightarrow>
          (if data = [] then Inr s
           else
             (case JSON_parse data of
                None \<Rightarrow> Inl SyntaxError
              | Some v \<Rightarrow> Inr (s\<lparr>modules := v, alerts := alerts s @ [LayoutLoaded]\<rparr>))))"

subsection \<open>importLayout (lines 124-138)\<close>

text \<open>The argument is the text of \<^verbatim>\<open>e.target.files[0]\<close> as \<^verbatim>\<open>readAsText\<close> delivers it to
  \<^verbatim>\<open>reader.onload\<close>, or \<open>None\<close> when no file was chosen. The \<^verbatim>\<open>try\<close>/\<^verbatim>\<open>catch\<close> turns the
  SyntaxError of \<^verbatim>\<open>JSON.parse\<close> into an alert, so the handler never throws.\<close>

definition importLayout :: "string option \<Rightarrow> app_state \<Rightarrow> app_state" where
  "importLayout file s =
     (case file of
        None \<Rightarrow> s
      | Some text \<Rightarrow>
          (case JSON_parse text of
             Some data \<Rightarrow> s\<lparr>modules := data, alerts := alerts s @ [LayoutImported]\<rparr>
           | None \<Rightarrow> s\<lparr>alerts := alerts s @ [InvalidJSONFile]\<rparr>))"

section \<open>The resource calculations (lines 143-145)\<close>







section \<open>The user interface as a transition system\<close>

text \<open>\<^verbatim>\<open>modules.find((m) => m.id === selected)\<close> (line 140): the first element whose id is
  the selection, undefined (\<open>None\<close>) when there is none.\<close>

fun find_by_id :: "jsval \<Rightarrow> json list \<Rightarrow> js_error + json option" where
  "find_by_id sel [] = Inr None"
| "find_by_id sel (m # ms) =
     (case get_id m of
        Inl e \<Rightarrow> Inl e
      | Inr i \<Rightarrow> if strict_eq i sel then Inr (Some m) else find_by_id sel ms)"

definition selectedModule :: "app_state \<Rightarrow> js_error + json option" where
  "selectedModule s =
     (case modules s of JArr ms \<Rightarrow> find_by_id (selected s) ms | _ \<Rightarrow> Inl TypeError)"

text \<open>
  The events of the page that reach the registry or the selection (lines 190, 214-262):
  the buttons, the file input, a click on a rendered module, and the four editors of the
  edit panel, which is rendered only while \<open>selectedModule\<close> is a truthy element
  (\<^verbatim>\<open>{selectedModule && ...}\<close>, line 227); without the panel an edit cannot happen and the
  state stays. The size editor passes \<^verbatim>\<open>Number(e.target.value)\<close>.
  Dragging with the transform controls rewrites only the \<^verbatim>\<open>position\<close> of the selected
  module and the export button only offers a download; neither is an event here. The
  rendering itself (which throws on a registry that is not an array of objects) is not
  modelled.
\<close>

datatype event =
    AddClick int rat rat rat
  | DeleteClick
  | SaveClick
  | LoadClick
  | ImportFile "string option"
  | ModuleClick nat
  | EditLabel string
  | EditColor string
  | EditSize rat
  | EditType string

definition edit :: "string \<Rightarrow> json \<Rightarrow> app_state \<Rightarrow> js_error + app_state" where
  "edit field v s =
     (case selectedModule s of
        Inl e \<Rightarrow> Inl e
      | Inr None \<Rightarrow> Inr s
      | Inr (Some m) \<Rightarrow> if truthy (Val m) then updateSelected field v s else Inr s)"

fun step :: "event \<Rightarrow> app_state \<Rightarrow> js_error + app_state" where
  "step (AddClick now r1 r2 r3) s = addModule now r1 r2 r3 s"
| "step DeleteClick s = deleteModule s"
| "step SaveClick s = Inr (saveLayout s)"
| "step LoadClick s = loadLayout s"
| "step (ImportFile file) s = Inr (importLayout file s)"
| "step (ModuleClick k) s = clickModule k s"
| "step (EditLabel v) s = edit ''label'' (JStr v) s"
| "step (EditColor v) s = edit ''color'' (JStr v) s"
| "step (EditSize x) s = edit ''size'' (JNum x) s"
| "step (EditType v) s = edit ''type'' (JStr v) s"

fun run_events :: "event list \<Rightarrow> app_state \<Rightarrow> js_error + app_state" where
  "run_events [] s = Inr s"
| "run_events (e # es) s = (case step e s of Inl err \<Rightarrow> Inl err | Inr s' \<Rightarrow> run_events es s')"

section \<open>The data model of the specification\<close>



text \<open>The selection is none, or the id of a record of the registry.\<close>

definition selection_ok :: "app_state \<Rightarrow> bool" where
  "selection_ok s =
     (selected s = Val JNull \<or>
      (case modules s of JArr ms \<Rightarrow> list_ex (\<lambda>m. get_id m = Inr (selected s)) ms | _ \<Rightarrow> False))"

text \<open>The six types with the label and the colour that \<open>addModule\<close> derives from each.\<close>

definition type_table :: "(string \<times> string \<times> string) list" where
  "type_table =
    [(''cube'', ''Cube'', ''#00aaff''),
     (''sphere'', ''Sphere'', ''#ffcc00''),
     (''cylinder'', ''Cylinder'', ''#00ffaa''),
     (''cone'', ''Cone'', ''#ff4444''),
     (''solar'', ''Solar'', ''#2233ff''),
     (''tunnel'', ''Tunnel'', ''#aaaaaa'')]"

text \<open>The \<^verbatim>\<open>type\<close> of a record is one of the six of the enumeration.\<close>

definition type_in_enumeration :: "json \<Rightarrow> bool" where
  "type_in_enumeration m =
     (case m of
        JObj fs \<Rightarrow> (case map_of fs ''type'' of Some (JStr t) \<Rightarrow> t \<in> set types | _ \<Rightarrow> False)
      | _ \<Rightarrow> False)"

text \<open>A sequence of add operations, each with its clock reading and its random draws.\<close>

fun add_events :: "(int \<times> rat \<times> rat \<times> rat) list \<Rightarrow> event list" where
  "add_events [] = []"
| "add_events ((now, r1, r2, r3) # inputs) = AddClick now r1 r2 r3 # add_events inputs"


text \<open>The three random draws of one add operation are results of \<^verbatim>\<open>Math.random()\<close>.\<close>

fun random_draws :: "int \<times> rat \<times> rat \<times> rat \<Rightarrow> bool" where
  "random_draws (now, r1, r2, r3) = (is_random r1 \<and> is_random r2 \<and> is_random r3)"

text \<open>
  The values that \<^verbatim>\<open>JSON.stringify\<close> writes and \<^verbatim>\<open>JSON.parse\<close> reads back: every number is
  a double (it is its own rounding) and no object has a key twice. Every value built by
  the handlers from numbers of the platform is one.
\<close>

definition is_double :: "rat \<Rightarrow> bool" where
  "is_double x = (fl x = x)"

fun json_safe :: "json \<Rightarrow> bool"
  and elems_safe :: "json list \<Rightarrow> bool"
  and members_safe :: "(string \<times> json) list \<Rightarrow> bool" where
  "json_safe JNull = True"
| "json_safe (JBool b) = True"
| "json_safe (JNum x) = is_double x"
| "json_safe (JStr s) = True"
| "json_safe (JArr xs) = elems_safe xs"
| "json_safe (JObj fs) = (distinct (map fst fs) \<and> members_safe fs)"
| "elems_safe [] = True"
| "elems_safe (x # xs) = (json_safe x \<and> elems_safe xs)"
| "members_safe [] = True"
| "members_safe ((k, v) # fs) = (json_safe v \<and> members_safe fs)"

section \<open>Auxiliary notions of the proofs\<close>













section \<open>Properties of the number arithmetic\<close>

text \<open>Powers of two, the exponent of a number and the rounding of a quotient.\<close>

lemma pow2_powi: "pow2 e = 2 powi e"
  by (simp add: pow2_def power_int_def inverse_eq_divide power_one_over)

lemma pow2_pos: "0 < pow2 e"
  by (simp add: pow2_powi)

lemma pow2_add: "pow2 (a + b) = pow2 a * pow2 b"
  by (simp add: pow2_powi power_int_add)

lemma pow2_mono: "a \<le> b \<Longrightarrow> pow2 a \<le> pow2 b"
  by (simp add: pow2_powi power_int_increasing)


lemma pow2_nat: "pow2 (int n) = 2 ^ n"
  by (simp add: pow2_def)

lemma pow2_numeral: "pow2 (numeral k) = 2 ^ numeral k"
  by (simp add: pow2_def)

lemma pow2_neg_nat: "pow2 (- int n) = 1 / 2 ^ n"
  by (simp add: pow2_powi power_int_minus inverse_eq_divide)

lemma pow2_shift52: "pow2 e = 2 ^ 52 * pow2 (e - 52)"
  using pow2_add[of 52 "e - 52"] by (simp add: pow2_numeral)

lemma pow2_shift53: "pow2 (e + 1) = 2 ^ 53 * pow2 (e - 52)"
  using pow2_add[of 53 "e - 52"] by (simp add: pow2_numeral add.commute)


lemma ilog2_bounds:
  assumes "0 < x"
  shows "pow2 (ilog2 x) \<le> x \<and> x < pow2 (ilog2 x + 1)"
proof (cases "1 \<le> x")
  case True
  define n where "n = nat \<lfloor>x\<rfloor>"
  have n: "0 < n" "of_nat n \<le> x" "x < of_nat n + 1"
    using True by (auto simp: n_def le_floor_iff) linarith+
  obtain L where L: "floorlog 2 n = Suc L"
    using n(1) by (cases "floorlog 2 n") (auto simp: floorlog_eq_zero_iff)
  have b: "2 ^ L \<le> n" "n < 2 ^ Suc L"
    using floorlog_bounds[of n 2] n(1) L by auto
  have e: "ilog2 x = int L" using True L by (simp add: ilog2_def n_def)
  have "pow2 (int L) \<le> x"
  proof -
    have "(of_nat (2 ^ L) :: rat) \<le> of_nat n" using b(1) by (simp only: of_nat_le_iff)
    then have "(2::rat) ^ L \<le> of_nat n" by simp
    from this n(2) have "(2::rat) ^ L \<le> x" by (rule order_trans)
    then show ?thesis by (simp add: pow2_nat)
  qed
  moreover have "x < pow2 (int L + 1)"
  proof -
    have "n + 1 \<le> 2 ^ Suc L" using b(2) by simp
    then have "(of_nat (n + 1) :: rat) \<le> of_nat (2 ^ Suc L)" by (simp only: of_nat_le_iff)
    then have "(of_nat (n + 1) :: rat) \<le> 2 ^ Suc L" by simp
    moreover have "pow2 (int L + 1) = 2 ^ Suc L"
      using pow2_nat[of "Suc L"] by (simp add: add.commute)
    ultimately show ?thesis using n(3) by simp
  qed
  ultimately show ?thesis by (simp add: e)
next
  case False
  define c where "c = \<lceil>1 / x\<rceil>"
  define n where "n = nat (c - 1)"
  have y: "1 < 1 / x" using False assms by simp
  have c: "1 / x \<le> of_int c" "of_int c - 1 < 1 / x"
    unfolding c_def by (simp_all add: le_of_int_ceiling) linarith
  have "(1::rat) < of_int c" using y c(1) by simp
  then have c2: "2 \<le> c" by simp
  have n: "0 < n" "int n = c - 1" using c2 by (auto simp: n_def)
  obtain L where L: "floorlog 2 n = Suc L"
    using n(1) by (cases "floorlog 2 n") (auto simp: floorlog_eq_zero_iff)
  have b: "2 ^ L \<le> n" "n < 2 ^ Suc L"
    using floorlog_bounds[of n 2] n(1) L by auto
  have e: "ilog2 x = - int (Suc L)" using False L by (simp add: ilog2_def n_def c_def)
  have up: "1 / x \<le> 2 ^ Suc L"
  proof -
    have "n + 1 \<le> 2 ^ Suc L" using b(2) by simp
    then have "int (n + 1) \<le> int (2 ^ Suc L)" by (simp only: of_nat_le_iff)
    then have "int n + 1 \<le> 2 ^ Suc L" by simp
    then have "c \<le> 2 ^ Suc L" using n(2) by simp
    then have "(of_int c :: rat) \<le> of_int (2 ^ Suc L)" by (simp only: of_int_le_iff)
    then have "(of_int c :: rat) \<le> 2 ^ Suc L" by simp
    with c(1) show ?thesis by simp
  qed
  have lo: "2 ^ L < 1 / x"
  proof -
    have "int (2 ^ L) \<le> int n" using b(1) by (simp only: of_nat_le_iff)
    then have "(2::int) ^ L \<le> c - 1" using n(2) by simp
    then have "(of_int (2 ^ L) :: rat) \<le> of_int (c - 1)" by (simp only: of_int_le_iff)
    then have "(2::rat) ^ L \<le> of_int c - 1" by simp
    with c(2) show ?thesis by simp
  qed
  have "pow2 (- int (Suc L)) \<le> x"
  proof -
    have "1 \<le> x * 2 ^ Suc L" using up assms by (simp add: field_simps)
    then have "1 / 2 ^ Suc L \<le> x" by (simp add: field_simps)
    then show ?thesis by (simp only: pow2_neg_nat)
  qed
  moreover have "x < pow2 (- int (Suc L) + 1)"
  proof -
    have "x * 2 ^ L < 1" using lo assms by (simp add: field_simps)
    then have "x < 1 / 2 ^ L" by (simp add: field_simps)
    moreover have "- int (Suc L) + 1 = - int L" by simp
    ultimately show ?thesis by (simp only: pow2_neg_nat)
  qed
  ultimately show ?thesis by (simp add: e)
qed



lemma ilog2_mono:
  assumes "0 < x" "x \<le> y"
  shows "ilog2 x \<le> ilog2 y"
proof (rule ccontr)
  assume "\<not> ilog2 x \<le> ilog2 y"
  then have "ilog2 y + 1 \<le> ilog2 x" by simp
  then have "pow2 (ilog2 y + 1) \<le> pow2 (ilog2 x)" by (rule pow2_mono)
  moreover have "pow2 (ilog2 x) \<le> x" using ilog2_bounds[OF assms(1)] by simp
  moreover have "y < pow2 (ilog2 y + 1)" using ilog2_bounds[of y] assms by simp
  ultimately show False using assms(2) by simp
qed

lemma round_half_even_cases:
  "round_half_even q = \<lfloor>q\<rfloor> \<and> q - of_int \<lfloor>q\<rfloor> \<le> 1/2
   \<or> round_half_even q = \<lfloor>q\<rfloor> + 1 \<and> 1/2 \<le> q - of_int \<lfloor>q\<rfloor>"
  by (auto simp: round_half_even_def Let_def)

lemma round_half_even_of_int [simp]: "round_half_even (of_int n) = n"
  by (simp add: round_half_even_def)


lemma round_half_even_mono:
  assumes "a \<le> b"
  shows "round_half_even a \<le> round_half_even b"
proof (cases "\<lfloor>a\<rfloor> = \<lfloor>b\<rfloor>")
  case True
  then have "a - of_int \<lfloor>a\<rfloor> \<le> b - of_int \<lfloor>b\<rfloor>" using assms by simp
  then show ?thesis using True
    by (auto simp: round_half_even_def Let_def)
next
  case False
  then have "\<lfloor>a\<rfloor> + 1 \<le> \<lfloor>b\<rfloor>" using floor_mono[OF assms] by simp
  moreover have "round_half_even a \<le> \<lfloor>a\<rfloor> + 1" using round_half_even_cases[of a] by auto
  moreover have "\<lfloor>b\<rfloor> \<le> round_half_even b" using round_half_even_cases[of b] by auto
  ultimately show ?thesis by simp
qed

text \<open>The unit in the last place of a positive x, and the significand of its rounding.\<close>

lemma fl_pos_eq:
  "0 < x \<Longrightarrow> fl x = of_int (round_half_even (x / pow2 (ilog2 x - 52))) * pow2 (ilog2 x - 52)"
  by (simp add: fl_def Let_def)

lemma fl_neg: "fl (- x) = - fl x"
  by (simp add: fl_def Let_def sgn_minus)

lemma fl_zero [simp]: "fl 0 = 0"
  by (simp add: fl_def)

lemma significand_bounds:
  assumes "0 < x"
  shows "2 ^ 52 \<le> x / pow2 (ilog2 x - 52)" "x / pow2 (ilog2 x - 52) < 2 ^ 53"
proof -
  have p: "pow2 (ilog2 x) = 2 ^ 52 * pow2 (ilog2 x - 52)"
    by (rule pow2_shift52)
  have q: "pow2 (ilog2 x + 1) = 2 ^ 53 * pow2 (ilog2 x - 52)"
    by (rule pow2_shift53)
  show "2 ^ 52 \<le> x / pow2 (ilog2 x - 52)"
    using ilog2_bounds[OF assms] pow2_pos[of "ilog2 x - 52"] by (simp add: p pos_le_divide_eq)
  show "x / pow2 (ilog2 x - 52) < 2 ^ 53"
    using ilog2_bounds[OF assms] pow2_pos[of "ilog2 x - 52"] by (simp add: q pos_divide_less_eq)
qed

lemma fl_pos_bounds:
  assumes "0 < x"
  shows "pow2 (ilog2 x) \<le> fl x" "fl x \<le> pow2 (ilog2 x + 1)"
proof -
  let ?u = "pow2 (ilog2 x - 52)"
  let ?n = "round_half_even (x / ?u)"
  have "round_half_even (of_int (2 ^ 52)) \<le> ?n"
    using significand_bounds(1)[OF assms] by (intro round_half_even_mono) simp
  then have "2 ^ 52 \<le> ?n" by (simp only: round_half_even_of_int)
  then have "(of_int (2 ^ 52) :: rat) \<le> of_int ?n" by (simp only: of_int_le_iff)
  then have lo: "(2::rat) ^ 52 \<le> of_int ?n" by simp
  have "?n \<le> round_half_even (of_int (2 ^ 53))"
    using significand_bounds(2)[OF assms] by (intro round_half_even_mono) simp
  then have "?n \<le> 2 ^ 53" by (simp only: round_half_even_of_int)
  then have "(of_int ?n :: rat) \<le> of_int (2 ^ 53)" by (simp only: of_int_le_iff)
  then have hi: "of_int ?n \<le> (2::rat) ^ 53" by simp
  have p: "pow2 (ilog2 x) = 2 ^ 52 * ?u"
    by (rule pow2_shift52)
  have q: "pow2 (ilog2 x + 1) = 2 ^ 53 * ?u"
    by (rule pow2_shift53)
  show "pow2 (ilog2 x) \<le> fl x"
    using lo pow2_pos[of "ilog2 x - 52"] by (simp add: fl_pos_eq[OF assms] p)
  show "fl x \<le> pow2 (ilog2 x + 1)"
    using hi pow2_pos[of "ilog2 x - 52"] by (simp add: fl_pos_eq[OF assms] q)
qed

lemma fl_pos: "0 < x \<Longrightarrow> 0 < fl x"
  using fl_pos_bounds(1)[of x] pow2_pos[of "ilog2 x"] by simp

lemma fl_mono_pos:
  assumes "0 < x" "x \<le> y"
  shows "fl x \<le> fl y"
proof (cases "ilog2 x = ilog2 y")
  case True
  have y: "0 < y" using assms by simp
  have "x / pow2 (ilog2 y - 52) \<le> y / pow2 (ilog2 y - 52)"
    using assms(2) pow2_pos[of "ilog2 y - 52"] by (simp add: divide_right_mono)
  then have "round_half_even (x / pow2 (ilog2 y - 52)) \<le> round_half_even (y / pow2 (ilog2 y - 52))"
    by (rule round_half_even_mono)
  then show ?thesis
    using pow2_pos[of "ilog2 y - 52"] by (simp add: fl_pos_eq[OF assms(1)] fl_pos_eq[OF y] True)
next
  case False
  have y: "0 < y" using assms by simp
  have "ilog2 x + 1 \<le> ilog2 y" using False ilog2_mono[OF assms] by simp
  then have "pow2 (ilog2 x + 1) \<le> pow2 (ilog2 y)" by (rule pow2_mono)
  with fl_pos_bounds(2)[OF assms(1)] fl_pos_bounds(1)[OF y] show ?thesis by simp
qed

lemma fl_mono:
  assumes "x \<le> y"
  shows "fl x \<le> fl y"
proof -
  consider "0 < x" | "x \<le> 0" "0 \<le> y" | "y < 0" by linarith
  then show ?thesis
  proof cases
    case 1
    then show ?thesis using assms by (rule fl_mono_pos)
  next
    case 2
    have "fl x \<le> 0"
      using 2(1) fl_pos[of "- x"] by (cases "x = 0") (simp_all add: fl_neg)
    moreover have "0 \<le> fl y"
      using 2(2) fl_pos[of y] by (cases "y = 0") simp_all
    ultimately show ?thesis by simp
  next
    case 3
    then have "fl (- y) \<le> fl (- x)" using assms by (intro fl_mono_pos) simp_all
    then show ?thesis by (simp add: fl_neg)
  qed
qed



text \<open>Evaluation of the rounding on numerals.\<close>

lemma floor_rat_numeral [simp]: "\<lfloor>numeral a / numeral b :: rat\<rfloor> = numeral a div numeral b"
  by (metis floor_divide_of_int_eq of_int_numeral)

lemma ceiling_rat_numeral [simp]: "\<lceil>numeral a / numeral b :: rat\<rceil> = - (- numeral a div numeral b)"
  by (metis ceiling_def floor_divide_of_int_eq minus_divide_left of_int_minus of_int_numeral)

lemmas fl_eval = fl_def ilog2_def round_half_even_def Let_def compute_floorlog pow2_def

lemma fl_six_edge: "fl (6 - 6 / 2 ^ 53) = 6 - 1 / 2 ^ 50"
  by (simp add: fl_eval)

lemma fl_three_edge: "fl (3 - 1 / 2 ^ 50) = 3 - 1 / 2 ^ 50"
  by (simp add: fl_eval)

lemma fl_minus_three: "fl (- 3) = - 3"
  by (simp add: fl_eval)








section \<open>Properties of the handlers\<close>

subsection \<open>Filtering and mapping a registry\<close>







subsection \<open>The random draws of addModule\<close>

lemma random_scaled:
  assumes "is_random r"
  shows "0 \<le> js_mul r 6" "js_mul r 6 \<le> 6 - 1 / 2 ^ 50"
proof -
  have "fl 0 \<le> fl (r * 6)" using assms by (intro fl_mono) (simp add: is_random_def)
  then show "0 \<le> js_mul r 6" by (simp add: js_mul_def)
  have "r * 6 \<le> 6 - 6 / 2 ^ 53" using assms by (simp add: is_random_def)
  then have "fl (r * 6) \<le> fl (6 - 6 / 2 ^ 53)" by (rule fl_mono)
  then show "js_mul r 6 \<le> 6 - 1 / 2 ^ 50" by (simp only: js_mul_def fl_six_edge)
qed

lemma random_position:
  assumes "is_random r"
  shows "- 3 \<le> js_sub (js_mul r 6) 3" "js_sub (js_mul r 6) 3 < 3"
proof -
  have "fl (- 3) \<le> fl (js_mul r 6 - 3)"
    using random_scaled(1)[OF assms] by (intro fl_mono) simp
  then show "- 3 \<le> js_sub (js_mul r 6) 3" by (simp only: js_sub_def fl_minus_three)
  have "js_mul r 6 - 3 \<le> 3 - 1 / 2 ^ 50" using random_scaled(2)[OF assms] by simp
  then have "fl (js_mul r 6 - 3) \<le> fl (3 - 1 / 2 ^ 50)" by (rule fl_mono)
  then have "js_sub (js_mul r 6) 3 \<le> 3 - 1 / 2 ^ 50" by (simp only: js_sub_def fl_three_edge)
  then show "js_sub (js_mul r 6) 3 < 3" by simp
qed

lemma random_index:
  assumes "is_random r"
  shows "\<exists>i < length types. index_at types (Math_floor (js_mul r (of_nat (length types)))) = Some (types ! i)"
proof -
  let ?i = "Math_floor (js_mul r 6)"
  have "0 \<le> ?i" using random_scaled(1)[OF assms] by (simp add: Math_floor_def)
  moreover have "?i < 6"
  proof -
    have "js_mul r 6 < 6" using random_scaled(2)[OF assms] by simp
    then show ?thesis by (simp add: Math_floor_def floor_less_iff)
  qed
  ultimately have "nat ?i < length types \<and> index_at types ?i = Some (types ! nat ?i)"
    by (simp add: index_at_def types_def)
  moreover have "(of_nat (length types) :: rat) = 6" by (simp add: types_def)
  ultimately show ?thesis by auto
qed

lemma upper_initials:
  "char_of (67::nat) = CHR ''C''" "char_of (83::nat) = CHR ''S''" "char_of (84::nat) = CHR ''T''"
  by code_simp+

lemma new_module_shape:
  assumes "i < length types"
  shows "\<exists>l c. new_module now (types ! i) r2 r3 =
           JObj [(''id'', JNum (of_int now)), (''label'', JStr l), (''color'', JStr c),
                 (''size'', JNum 2), (''type'', JStr (types ! i)),
                 (''position'', JArr [JNum (js_sub (js_mul r2 6) 3), JNum 0, JNum (js_sub (js_mul r3 6) 3)])]
         \<and> (types ! i, l, c) \<in> set type_table"
proof -
  have "i \<in> {0, 1, 2, 3, 4, 5}" using assms by (auto simp: types_def)
  then show ?thesis
    by (auto simp: new_module_def types_def colors_def type_table_def toUpperCase_def
        upper_char_def charAt_def slice_def Let_def upper_initials)
qed

lemma addModule_result:
  assumes arr: "modules s = JArr ms"
    and r1: "is_random r1" and r2: "is_random r2" and r3: "is_random r3"
  shows "\<exists>t l c x z.
           addModule now r1 r2 r3 s =
             Inr (s\<lparr>modules :=
                       JArr (ms @ [JObj [(''id'', JNum (of_int now)), (''label'', JStr l),
                                          (''color'', JStr c), (''size'', JNum 2), (''type'', JStr t),
                                          (''position'', JArr [JNum x, JNum 0, JNum z])]]),
                    selected := Val (JNum (of_int now))\<rparr>)
         \<and> (t, l, c) \<in> set type_table
         \<and> - 3 \<le> x \<and> x < 3 \<and> - 3 \<le> z \<and> z < 3"
proof -
  obtain i where i: "i < length types"
    and idx: "index_at types (Math_floor (js_mul r1 (of_nat (length types)))) = Some (types ! i)"
    using random_index[OF r1] by blast
  obtain l c where m: "new_module now (types ! i) r2 r3 =
           JObj [(''id'', JNum (of_int now)), (''label'', JStr l), (''color'', JStr c),
                 (''size'', JNum 2), (''type'', JStr (types ! i)),
                 (''position'', JArr [JNum (js_sub (js_mul r2 6) 3), JNum 0, JNum (js_sub (js_mul r3 6) 3)])]"
    and tab: "(types ! i, l, c) \<in> set type_table"
    using new_module_shape[OF i] by blast
  have "addModule now r1 r2 r3 s =
          Inr (s\<lparr>modules := JArr (ms @ [new_module now (types ! i) r2 r3]),
                 selected := Val (JNum (of_int now))\<rparr>)"
    using arr idx by (simp add: addModule_def)
  then have "addModule now r1 r2 r3 s =
             Inr (s\<lparr>modules :=
                       JArr (ms @ [JObj [(''id'', JNum (of_int now)), (''label'', JStr l),
                                          (''color'', JStr c), (''size'', JNum 2),
                                          (''type'', JStr (types ! i)),
                                          (''position'', JArr [JNum (js_sub (js_mul r2 6) 3), JNum 0,
                                                               JNum (js_sub (js_mul r3 6) 3)])]]),
                    selected := Val (JNum (of_int now))\<rparr>)
         \<and> (types ! i, l, c) \<in> set type_table
         \<and> - 3 \<le> js_sub (js_mul r2 6) 3 \<and> js_sub (js_mul r2 6) 3 < 3
         \<and> - 3 \<le> js_sub (js_mul r3 6) 3 \<and> js_sub (js_mul r3 6) 3 < 3"
    using m tab random_position[OF r2] random_position[OF r3] by simp
  then show ?thesis by blast
qed

subsection \<open>Sequences of add operations\<close>

lemma add_events_run:
  assumes "modules s = JArr ms0" "list_all random_draws inputs"
  shows "\<exists>s' news. run_events (add_events inputs) s = Inr s'
           \<and> modules s' = JArr (ms0 @ news)
           \<and> map get_id news = map (\<lambda>i. Inr (Val (JNum (of_int (fst i))))) inputs
           \<and> list_all type_in_enumeration news"
  using assms
proof (induction inputs arbitrary: s ms0)
  case Nil
  then show ?case by simp
next
  case (Cons a inputs)
  obtain now r1 r2 r3 where a: "a = (now, r1, r2, r3)" by (cases a) auto
  have r: "is_random r1" "is_random r2" "is_random r3" and rest: "list_all random_draws inputs"
    using Cons.prems(2) a by simp_all
  obtain t l c x z where
    add: "addModule now r1 r2 r3 s =
             Inr (s\<lparr>modules :=
                       JArr (ms0 @ [JObj [(''id'', JNum (of_int now)), (''label'', JStr l),
                                           (''color'', JStr c), (''size'', JNum 2), (''type'', JStr t),
                                           (''position'', JArr [JNum x, JNum 0, JNum z])]]),
                    selected := Val (JNum (of_int now))\<rparr>)"
    and tab: "(t, l, c) \<in> set type_table"
    using addModule_result[OF Cons.prems(1) r, of now] by blast
  let ?m = "JObj [(''id'', JNum (of_int now)), (''label'', JStr l),
                  (''color'', JStr c), (''size'', JNum 2), (''type'', JStr t),
                  (''position'', JArr [JNum x, JNum 0, JNum z])]"
  let ?s1 = "s\<lparr>modules := JArr (ms0 @ [?m]), selected := Val (JNum (of_int now))\<rparr>"
  have t: "t \<in> set types" using tab by (auto simp: type_table_def types_def)
  have m: "get_id ?m = Inr (Val (JNum (of_int now)))" "type_in_enumeration ?m"
    using t by (simp_all add: type_in_enumeration_def)
  obtain s' news where ih: "run_events (add_events inputs) ?s1 = Inr s'"
    "modules s' = JArr ((ms0 @ [?m]) @ news)"
    "map get_id news = map (\<lambda>i. Inr (Val (JNum (of_int (fst i))))) inputs"
    "list_all type_in_enumeration news"
    using Cons.IH[of ?s1 "ms0 @ [?m]", OF _ rest] by auto
  have "run_events (add_events (a # inputs)) s = Inr s'"
    using add ih(1) by (simp add: a)
  moreover have "modules s' = JArr (ms0 @ (?m # news))" using ih(2) by simp
  moreover have "map get_id (?m # news) = map (\<lambda>i. Inr (Val (JNum (of_int (fst i))))) (a # inputs)"
    using ih(3) m(1) by (simp add: a)
  moreover have "list_all type_in_enumeration (?m # news)" using ih(4) m(2) by simp
  ultimately show ?case by blast
qed

subsection \<open>The selection along the events\<close>










section \<open>Properties of the JSON codec\<close>

subsection \<open>The parser reads back the tokens of a value\<close>


lemma prun_append_step:
  "pstep c t = Some c' \<Longrightarrow> prun c (t # ts) = prun c' ts"
  by simp



subsection \<open>Characters\<close>

lemma of_char_eq_iff': "(c = d) = ((of_char c :: nat) = of_char d)"
  by (metis char_of_char)






subsection \<open>Strings\<close>





subsection \<open>Digits\<close>










subsection \<open>Fraction digits\<close>







subsection \<open>Numbers\<close>











subsection \<open>Tokens\<close>















subsection \<open>Three documents\<close>





subsection \<open>Every document that decodes is well-formed\<close>






lemma members_safe_iff: "members_safe fs = (\<forall>p \<in> set fs. json_safe (snd p))"
  by (induction fs) auto










section \<open>Properties of the resource calculations\<close>














section \<open>The registry stays well-formed\<close>














section \<open>The claims\<close>

subsection \<open>The selection and the registry\<close>




subsection \<open>Adding\<close>




text \<open>
  Claim C2, as amended. For every sequence of add operations from the initial state
  whose clock readings are pairwise distinct, the registry holds one record for each
  operation, in order, with the clock reading as its id, so the ids are pairwise
  distinct; and the type of every record is one of the six of the enumeration.
\<close>

theorem add_sequence_ids:
  assumes draws: "list_all random_draws inputs"
    and clock: "distinct (map fst inputs)"
  shows "\<exists>s ms. run_events (add_events inputs) (init_state st) = Inr s
           \<and> modules s = JArr ms
           \<and> map get_id ms = map (\<lambda>i. Inr (Val (JNum (of_int (fst i))))) inputs
           \<and> distinct (map get_id ms)
           \<and> list_all type_in_enumeration ms"
proof -
  have "modules (init_state st) = JArr []" by (simp add: init_state_def)
  from add_events_run[OF this draws]
  obtain s ms where run: "run_events (add_events inputs) (init_state st) = Inr s"
    and ms: "modules s = JArr ms"
    and ids: "map get_id ms = map (\<lambda>i. Inr (Val (JNum (of_int (fst i))))) inputs"
    and ty: "list_all type_in_enumeration ms"
    by auto
  have "inj (\<lambda>n::int. (Inr (Val (JNum (of_int n))) :: js_error + jsval))"
    by (simp add: inj_def)
  then have "distinct (map (\<lambda>n::int. (Inr (Val (JNum (of_int n))) :: js_error + jsval)) (map fst inputs))"
    using clock by (simp add: distinct_map inj_on_def inj_def)
  then have "distinct (map get_id ms)" by (simp add: ids comp_def)
  with run ms ids ty show ?thesis by blast
qed

theorem add_sequence_ids_witness:
  "\<exists>s ms. run_events (add_events [(1000, 0, 0, 0), (1001, 1 / 2, 0, 0)]) (init_state Map.empty) = Inr s
      \<and> modules s = JArr ms
      \<and> map get_id ms = [Inr (Val (JNum 1000)), Inr (Val (JNum 1001))]
      \<and> distinct (map get_id ms)
      \<and> list_all type_in_enumeration ms"
  using add_sequence_ids[of "[(1000, 0, 0, 0), (1001, 1 / 2, 0, 0)]" Map.empty]
  by (simp add: is_random_def)

text \<open>
  The claim as stated, for every sequence of add operations, fails: the id is
  \<^verbatim>\<open>Date.now()\<close>, and two adds within the same millisecond give two records the same id.
\<close>

theorem add_sequence_ids_counterexample:
  "run_events (add_events [(1000, 0, 0, 0), (1000, 1 / 2, 0, 0)]) (init_state Map.empty)
   = Inr \<lparr>modules =
            JArr [JObj [(''id'', JNum 1000), (''label'', JStr ''Cube''), (''color'', JStr ''#00aaff''),
                        (''size'', JNum 2), (''type'', JStr ''cube''),
                        (''position'', JArr [JNum (- 3), JNum 0, JNum (- 3)])],
                  JObj [(''id'', JNum 1000), (''label'', JStr ''Cone''), (''color'', JStr ''#ff4444''),
                        (''size'', JNum 2), (''type'', JStr ''cone''),
                        (''position'', JArr [JNum (- 3), JNum 0, JNum (- 3)])]],
          selected = Val (JNum 1000), storage = Map.empty, alerts = []\<rparr>"
  by (simp add: init_state_def addModule_def new_module_def index_at_def types_def colors_def
      Math_floor_def js_mul_def js_sub_def toUpperCase_def upper_char_def charAt_def slice_def
      upper_initials fl_eval)


subsection \<open>Deleting\<close>

text \<open>
  Claim C5. For every registry, \<open>deleteModule\<close> invoked with an empty selection
  (\<^verbatim>\<open>selected\<close> is \<^verbatim>\<open>null\<close>) emits the "Select a module to delete!" alert exactly once and
  changes nothing else: the registry, the selection and the storage are what they were.
\<close>

theorem deleteModule_no_selection:
  assumes "selected s = Val JNull"
  shows "deleteModule s = Inr (s\<lparr>alerts := alerts s @ [SelectModuleToDelete]\<rparr>)"
  using assms by (simp add: deleteModule_def)

theorem deleteModule_no_selection_witness:
  "deleteModule
     \<lparr>modules = JArr [JObj [(''id'', JNum 7), (''label'', JStr ''Cube'')]],
      selected = Val JNull, storage = Map.empty, alerts = []\<rparr>
   = Inr \<lparr>modules = JArr [JObj [(''id'', JNum 7), (''label'', JStr ''Cube'')]],
          selected = Val JNull, storage = Map.empty, alerts = [SelectModuleToDelete]\<rparr>"
  using deleteModule_no_selection
    [of "\<lparr>modules = JArr [JObj [(''id'', JNum 7), (''label'', JStr ''Cube'')]],
          selected = Val JNull, storage = Map.empty, alerts = []\<rparr>"]
  by simp




subsection \<open>Updating a field\<close>




subsection \<open>A selected id that is falsy\<close>

text \<open>
  Claim C10. The handlers test \<^verbatim>\<open>!selected\<close>, not \<^verbatim>\<open>selected === null\<close>. In a registry
  with a record whose id is 0, a click on that record selects it (the selection is then
  an id of the registry), after which \<open>deleteModule\<close> shows the no-selection alert and
  changes nothing else, and \<open>updateSelected\<close> changes nothing at all.
\<close>

theorem falsy_id_selection:
  assumes arr: "modules s = JArr ms"
    and k: "k < length ms"
    and zero: "get_id (ms ! k) = Inr (Val (JNum 0))"
  shows "clickModule k s = Inr (s\<lparr>selected := Val (JNum 0)\<rparr>)
       \<and> selection_ok (s\<lparr>selected := Val (JNum 0)\<rparr>)
       \<and> deleteModule (s\<lparr>selected := Val (JNum 0)\<rparr>)
           = Inr (s\<lparr>selected := Val (JNum 0), alerts := alerts s @ [SelectModuleToDelete]\<rparr>)
       \<and> updateSelected field v (s\<lparr>selected := Val (JNum 0)\<rparr>) = Inr (s\<lparr>selected := Val (JNum 0)\<rparr>)"
proof -
  have "ms ! k \<in> set ms" using k by simp
  then have "list_ex (\<lambda>m. get_id m = Inr (Val (JNum 0))) ms"
    using zero by (auto simp: list_ex_iff)
  then show ?thesis
    using arr k zero
    by (auto simp: clickModule_def selection_ok_def deleteModule_def updateSelected_def strict_eq_def)
qed

theorem falsy_id_selection_witness:
  "clickModule 0
     \<lparr>modules = JArr [JObj [(''id'', JNum 0), (''label'', JStr ''Cube'')]],
      selected = Val JNull, storage = Map.empty, alerts = []\<rparr>
   = Inr \<lparr>modules = JArr [JObj [(''id'', JNum 0), (''label'', JStr ''Cube'')]],
          selected = Val (JNum 0), storage = Map.empty, alerts = []\<rparr>
   \<and>
   deleteModule
     \<lparr>modules = JArr [JObj [(''id'', JNum 0), (''label'', JStr ''Cube'')]],
      selected = Val (JNum 0), storage = Map.empty, alerts = []\<rparr>
   = Inr \<lparr>modules = JArr [JObj [(''id'', JNum 0), (''label'', JStr ''Cube'')]],
          selected = Val (JNum 0), storage = Map.empty, alerts = [SelectModuleToDelete]\<rparr>
   \<and>
   updateSelected ''label'' (JStr ''Lab'')
     \<lparr>modules = JArr [JObj [(''id'', JNum 0), (''label'', JStr ''Cube'')]],
      selected = Val (JNum 0), storage = Map.empty, alerts = []\<rparr>
   = Inr \<lparr>modules = JArr [JObj [(''id'', JNum 0), (''label'', JStr ''Cube'')]],
          selected = Val (JNum 0), storage = Map.empty, alerts = []\<rparr>"
  using falsy_id_selection
    [of "\<lparr>modules = JArr [JObj [(''id'', JNum 0), (''label'', JStr ''Cube'')]],
          selected = Val JNull, storage = Map.empty, alerts = []\<rparr>"
        "[JObj [(''id'', JNum 0), (''label'', JStr ''Cube'')]]" 0 "''label''" "JStr ''Lab''"]
  by simp

subsection \<open>Persistence\<close>







subsection \<open>The resource calculations\<close>



end
